theory Spec2Isabelle
  imports Complex_Main
begin

section \<open>JavaScript values\<close>

text \<open>
  The controller is JavaScript, so its inputs and outputs are dynamically typed values.
  A number is \<open>NaN\<close>, an infinity, or a finite double; the only finite numbers the
  controller meets are integers, so a finite number is given by its integer value, and
  the operations round their exact results to the nearest double (ties to even),
  overflowing to an infinity. The negative zero is identified with zero. Strings are
  lists of 8-bit characters, read as code units below 256. Objects are property lists in
  the order in which JavaScript enumerates them.
\<close>

datatype jsnum = NaN | NegInf | Fin int | PosInf

datatype jsval =
    JUndefined
  | JNull
  | JBool bool
  | JNum jsnum
  | JStr string
  | JArr "jsval list"
  | JObj "(string \<times> jsval) list"

abbreviation num :: "int \<Rightarrow> jsval" where
  "num n \<equiv> JNum (Fin n)"

subsection \<open>Doubles\<close>

text \<open>
  The number of binary digits of a natural number, and the quotient \<open>N / D\<close> rounded to
  the nearest natural number, a tie going to the even one.
\<close>

fun bit_length :: "nat \<Rightarrow> nat" where
  "bit_length n = (if n = 0 then 0 else Suc (bit_length (n div 2)))"

declare bit_length.simps [simp del]

definition round_half_even :: "nat \<Rightarrow> nat \<Rightarrow> nat" where
  "round_half_even N D =
     (let q = N div D; r = N mod D
      in if D < 2 * r \<or> (2 * r = D \<and> odd q) then q + 1 else q)"

text \<open>
  The double nearest to a natural number: the number is cut to 53 significant binary
  digits; \<open>None\<close> when the result is \<open>2 ^ 1024\<close>, beyond the largest double, which is where
  the number becomes \<open>Infinity\<close>.
\<close>

definition double_of_nat :: "nat \<Rightarrow> nat option" where
  "double_of_nat n =
     (let e = bit_length n - 53;
          r = round_half_even n (2 ^ e) * 2 ^ e
      in if 2 ^ 1024 \<le> r then None else Some r)"

definition to_double :: "int \<Rightarrow> jsnum" where
  "to_double a =
     (case double_of_nat (nat \<bar>a\<bar>) of
        None \<Rightarrow> if a < 0 then NegInf else PosInf
      | Some r \<Rightarrow> Fin (sgn a * int r))"

subsection \<open>Numbers\<close>

definition isNaN :: "jsnum \<Rightarrow> bool" where
  "isNaN x = (x = NaN)"

text \<open>The relational operators \<open><\<close> and \<open><=\<close>: both are false as soon as one side is \<open>NaN\<close>.\<close>

fun js_lt :: "jsnum \<Rightarrow> jsnum \<Rightarrow> bool" where
  "js_lt NaN _ = False"
| "js_lt _ NaN = False"
| "js_lt NegInf y = (y \<noteq> NegInf)"
| "js_lt (Fin a) (Fin b) = (a < b)"
| "js_lt (Fin a) PosInf = True"
| "js_lt (Fin a) NegInf = False"
| "js_lt PosInf _ = False"

definition js_le :: "jsnum \<Rightarrow> jsnum \<Rightarrow> bool" where
  "js_le x y = (x \<noteq> NaN \<and> y \<noteq> NaN \<and> \<not> js_lt y x)"

definition js_gt :: "jsnum \<Rightarrow> jsnum \<Rightarrow> bool" where
  "js_gt x y = js_lt y x"

text \<open>\<open>Math.max\<close> and \<open>Math.min\<close> of two arguments: \<open>NaN\<close> if either argument is \<open>NaN\<close>.\<close>

definition Math_max :: "jsnum \<Rightarrow> jsnum \<Rightarrow> jsnum" where
  "Math_max x y = (if x = NaN \<or> y = NaN then NaN else if js_lt x y then y else x)"

definition Math_min :: "jsnum \<Rightarrow> jsnum \<Rightarrow> jsnum" where
  "Math_min x y = (if x = NaN \<or> y = NaN then NaN else if js_lt y x then y else x)"

fun js_neg :: "jsnum \<Rightarrow> jsnum" where
  "js_neg NaN = NaN"
| "js_neg NegInf = PosInf"
| "js_neg (Fin a) = Fin (- a)"
| "js_neg PosInf = NegInf"

fun js_add :: "jsnum \<Rightarrow> jsnum \<Rightarrow> jsnum" where
  "js_add NaN _ = NaN"
| "js_add _ NaN = NaN"
| "js_add (Fin a) (Fin b) = to_double (a + b)"
| "js_add (Fin a) y = y"
| "js_add x (Fin b) = x"
| "js_add x y = (if x = y then x else NaN)"

definition js_sub :: "jsnum \<Rightarrow> jsnum \<Rightarrow> jsnum" where
  "js_sub x y = js_add x (js_neg y)"

text \<open>The sign of a number that is not \<open>NaN\<close>: \<open>-1\<close>, \<open>0\<close> or \<open>1\<close>.\<close>

fun js_sign :: "jsnum \<Rightarrow> int" where
  "js_sign NaN = 0"
| "js_sign NegInf = - 1"
| "js_sign (Fin a) = sgn a"
| "js_sign PosInf = 1"

definition signed_inf :: "int \<Rightarrow> jsnum" where
  "signed_inf s = (if s = 0 then NaN else if s < 0 then NegInf else PosInf)"

fun js_mul :: "jsnum \<Rightarrow> jsnum \<Rightarrow> jsnum" where
  "js_mul NaN _ = NaN"
| "js_mul _ NaN = NaN"
| "js_mul (Fin a) (Fin b) = to_double (a * b)"
| "js_mul x y = signed_inf (js_sign x * js_sign y)"

text \<open>
  The quotient \<open>N / D\<close> of two positive naturals as a double, \<open>m * 2 ^ e\<close>: the exponent
  \<open>e\<close> puts \<open>N / (D * 2 ^ e)\<close> between \<open>2 ^ 52\<close> and \<open>2 ^ 53\<close> (and is at least \<open>-1074\<close>, the
  exponent of the subnormal numbers), and the mantissa \<open>m\<close> is that scaled quotient,
  rounded.
\<close>

definition scaled_num :: "nat \<Rightarrow> int \<Rightarrow> nat" where
  "scaled_num N e = (if e < 0 then N * 2 ^ nat (- e) else N)"

definition scaled_den :: "nat \<Rightarrow> int \<Rightarrow> nat" where
  "scaled_den D e = (if e < 0 then D else D * 2 ^ nat e)"

definition quotient_exponent :: "nat \<Rightarrow> nat \<Rightarrow> int" where
  "quotient_exponent N D =
     (let e0 = int (bit_length N) - int (bit_length D) - 53;
          e = (if 2 ^ 53 * scaled_den D e0 \<le> scaled_num N e0 then e0 + 1 else e0)
      in max e (- 1074))"

definition quotient_mantissa :: "nat \<Rightarrow> nat \<Rightarrow> nat" where
  "quotient_mantissa N D =
     (let e = quotient_exponent N D in round_half_even (scaled_num N e) (scaled_den D e))"

text \<open>
  \<open>Math.ceil(x / y)\<close>, the only use of division in the controller, as one operation: the
  quotient is rounded to a double, then the ceiling is taken. A finite number divided
  by zero is an infinity of the sign of the dividend, \<open>0 / 0\<close> and \<open>Infinity / Infinity\<close>
  are \<open>NaN\<close>, and a finite number divided by an infinity is zero.
\<close>

definition ceil_quotient :: "int \<Rightarrow> int \<Rightarrow> jsnum" where
  "ceil_quotient a b =
     (let N = nat \<bar>a\<bar>; D = nat \<bar>b\<bar>;
          e = quotient_exponent N D; m = quotient_mantissa N D;
          positive = (0 < sgn a * sgn b)
      in if 0 \<le> e then
           (if 2 ^ 1024 \<le> m * 2 ^ nat e then signed_inf (sgn a * sgn b)
            else Fin (sgn a * sgn b * int (m * 2 ^ nat e)))
         else if positive then Fin (int ((m + 2 ^ nat (- e) - 1) div 2 ^ nat (- e)))
         else Fin (- int (m div 2 ^ nat (- e))))"

fun Math_ceil_div :: "jsnum \<Rightarrow> jsnum \<Rightarrow> jsnum" where
  "Math_ceil_div NaN _ = NaN"
| "Math_ceil_div _ NaN = NaN"
| "Math_ceil_div (Fin a) (Fin b) =
     (if b = 0 then signed_inf (sgn a) else if a = 0 then Fin 0 else ceil_quotient a b)"
| "Math_ceil_div (Fin a) y = Fin 0"
| "Math_ceil_div x (Fin b) = signed_inf (js_sign x * (if b < 0 then - 1 else 1))"
| "Math_ceil_div x y = NaN"

subsection \<open>Strings\<close>

text \<open>
  White space as \<open>parseInt\<close> and \<open>String.prototype.trim\<close> see it, among the code units
  below 256: TAB, LF, VT, FF, CR, SPACE and the no-break space.
\<close>

definition is_ws :: "char \<Rightarrow> bool" where
  "is_ws c = (c \<in> set [CHR 0x09, CHR 0x0A, CHR 0x0B, CHR 0x0C, CHR 0x0D, CHR 0x20, CHR 0xA0])"

definition is_digit :: "char \<Rightarrow> bool" where
  "is_digit c = (c \<in> set ''0123456789'')"

definition digit_val :: "char \<Rightarrow> nat" where
  "digit_val c = of_char c - 48"

definition digits_value :: "string \<Rightarrow> nat" where
  "digits_value ds = foldl (\<lambda>acc c. 10 * acc + digit_val c) 0 ds"

definition trim :: "string \<Rightarrow> string" where
  "trim s = rev (dropWhile is_ws (rev (dropWhile is_ws s)))"

text \<open>The decimal digits of a natural number, most significant first.\<close>

fun dec_digits :: "nat \<Rightarrow> string" where
  "dec_digits n =
     (if n < 10 then [''0123456789'' ! n]
      else dec_digits (n div 10) @ [''0123456789'' ! (n mod 10)])"

declare dec_digits.simps [simp del]

text \<open>
  The digits JavaScript prints for a positive double \<open>x\<close>: the shortest decimal \<open>c\<close>,
  with a power of ten \<open>10 ^ j\<close>, such that \<open>c * 10 ^ j\<close> rounds to \<open>x\<close>; of two such
  decimals of the same length, the nearer one. Up to \<open>2 ^ 53\<close> these are the digits of
  \<open>x\<close> itself, and 17 digits always suffice.
\<close>

definition round_trips :: "nat \<Rightarrow> nat \<Rightarrow> nat \<Rightarrow> bool" where
  "round_trips x j c = (double_of_nat (c * 10 ^ j) = Some x)"

definition nearer :: "nat \<Rightarrow> nat \<Rightarrow> nat list \<Rightarrow> nat" where
  "nearer x j cs =
     (case cs of
        [] \<Rightarrow> x
      | [c] \<Rightarrow> c
      | c # d # _ \<Rightarrow> if x - c * 10 ^ j \<le> d * 10 ^ j - x then c else d)"

definition digit_candidates :: "nat \<Rightarrow> nat \<Rightarrow> nat list" where
  "digit_candidates x k =
     (let j = length (dec_digits x) - k; lo = x div 10 ^ j
      in filter (round_trips x j) [lo, lo + 1])"

definition shortest_digits :: "nat \<Rightarrow> nat \<times> nat" where
  "shortest_digits x =
     (case List.find (\<lambda>k. digit_candidates x k \<noteq> []) [1..<18] of
        None \<Rightarrow> (x, 0)
      | Some k \<Rightarrow>
          (let j = length (dec_digits x) - k
           in (nearer x j (digit_candidates x k), j)))"

text \<open>
  \<open>Number.prototype.toString\<close> on a positive integer-valued double: with the digits
  \<open>s\<close> (no trailing zero) and the position \<open>n\<close> of the decimal point after them, the
  digits followed by zeros when \<open>n\<close> is at most 21, and the exponent notation
  \<open>d.ddde+x\<close> beyond.
\<close>

definition strip_zeros :: "string \<Rightarrow> string" where
  "strip_zeros ds = rev (dropWhile (\<lambda>c. c = CHR ''0'') (rev ds))"

definition positive_toString :: "nat \<Rightarrow> string" where
  "positive_toString x =
     (let (c, j) = shortest_digits x;
          ds = dec_digits c;
          s = strip_zeros ds;
          n = length ds + j
      in if n \<le> 21 then ds @ replicate j CHR ''0''
         else if length s = 1 then s @ ''e+'' @ dec_digits (n - 1)
         else hd s # CHR ''.'' # tl s @ ''e+'' @ dec_digits (n - 1))"

fun Number_toString :: "jsnum \<Rightarrow> string" where
  "Number_toString NaN = ''NaN''"
| "Number_toString NegInf = ''-Infinity''"
| "Number_toString PosInf = ''Infinity''"
| "Number_toString (Fin a) =
     (if a = 0 then ''0''
      else if a < 0 then CHR ''-'' # positive_toString (nat (- a))
      else positive_toString (nat a))"

fun join_comma :: "string list \<Rightarrow> string" where
  "join_comma [] = []"
| "join_comma [s] = s"
| "join_comma (s # t # ss) = s @ CHR '','' # join_comma (t # ss)"

text \<open>
  The abstract operation \<open>ToString\<close>. An array prints its elements separated by commas,
  with \<open>null\<close> and \<open>undefined\<close> elements printed as nothing; a plain object prints as
  \<open>[object Object]\<close>.
\<close>

fun ToString :: "jsval \<Rightarrow> string" where
  "ToString JUndefined = ''undefined''"
| "ToString JNull = ''null''"
| "ToString (JBool b) = (if b then ''true'' else ''false'')"
| "ToString (JNum x) = Number_toString x"
| "ToString (JStr s) = s"
| "ToString (JArr vs) =
     join_comma (map (\<lambda>v. if v = JUndefined \<or> v = JNull then [] else ToString v) vs)"
| "ToString (JObj kvs) = ''[object Object]''"

text \<open>
  \<open>parseInt(v, 10)\<close>: convert to a string, skip leading white space, read an optional
  sign, then the longest run of decimal digits; no digit gives \<open>NaN\<close>, and otherwise
  the number the digits denote is rounded to a double. (ECMAScript lets an engine
  replace the digits after the twentieth by zeros before rounding; V8, which runs this
  server, rounds the digits as they are.)
\<close>

definition parseInt_string :: "string \<Rightarrow> jsnum" where
  "parseInt_string inputString =
     (let S = dropWhile is_ws inputString;
          negative = (S \<noteq> [] \<and> hd S = CHR ''-'');
          S' = (if S \<noteq> [] \<and> (hd S = CHR ''+'' \<or> hd S = CHR ''-'') then tl S else S);
          Z = takeWhile is_digit S'
      in if Z = [] then NaN
         else to_double ((if negative then - 1 else 1) * int (digits_value Z)))"

definition parseInt :: "jsval \<Rightarrow> jsnum" where
  "parseInt v = parseInt_string (ToString v)"

subsection \<open>Truthiness, objects\<close>

fun truthy :: "jsval \<Rightarrow> bool" where
  "truthy JUndefined = False"
| "truthy JNull = False"
| "truthy (JBool b) = b"
| "truthy (JNum x) = (x \<noteq> NaN \<and> x \<noteq> Fin 0)"
| "truthy (JStr s) = (s \<noteq> [])"
| "truthy (JArr vs) = True"
| "truthy (JObj kvs) = True"

text \<open>The operator \<open>||\<close>: the left operand when it is truthy, else the right one.\<close>

definition js_or :: "jsval \<Rightarrow> jsval \<Rightarrow> jsval" where
  "js_or a b = (if truthy a then a else b)"

text \<open>
  An array index is the canonical decimal form of a natural number below \<open>2 ^ 32 - 1\<close>.
  An object enumerates its array indices first, in ascending order, and then its other
  keys in the order of their creation.
\<close>

definition is_index :: "string \<Rightarrow> bool" where
  "is_index k =
     (k \<noteq> [] \<and> list_all is_digit k \<and> (k = ''0'' \<or> hd k \<noteq> CHR ''0'')
      \<and> digits_value k < 2 ^ 32 - 1)"

fun insert_index :: "(string \<times> jsval) list \<Rightarrow> string \<Rightarrow> jsval \<Rightarrow> (string \<times> jsval) list" where
  "insert_index [] k v = [(k, v)]"
| "insert_index ((k', v') # kvs) k v =
     (if is_index k' \<and> digits_value k' < digits_value k then (k', v') # insert_index kvs k v
      else (k, v) # (k', v') # kvs)"

fun replace_prop :: "(string \<times> jsval) list \<Rightarrow> string \<Rightarrow> jsval \<Rightarrow> (string \<times> jsval) list" where
  "replace_prop [] k v = []"
| "replace_prop ((k', v') # kvs) k v =
     (if k' = k then (k, v) # kvs else (k', v') # replace_prop kvs k v)"

text \<open>Writing a property: an existing key keeps its place; a new key takes its place
  among the indices if it is one, and goes last otherwise.\<close>

definition set_prop :: "(string \<times> jsval) list \<Rightarrow> string \<Rightarrow> jsval \<Rightarrow> (string \<times> jsval) list" where
  "set_prop kvs k v =
     (if k \<in> fst ` set kvs then replace_prop kvs k v
      else if is_index k then insert_index kvs k v
      else kvs @ [(k, v)])"

text \<open>The spread \<open>{ ...props, ...more }\<close> of one property list into another.\<close>

definition spread :: "(string \<times> jsval) list \<Rightarrow> (string \<times> jsval) list \<Rightarrow> (string \<times> jsval) list" where
  "spread props more = foldl (\<lambda>acc kv. set_prop acc (fst kv) (snd kv)) props more"

text \<open>Reading a property; a missing one, or a read on a value without properties, is \<open>undefined\<close>.\<close>

definition get_prop :: "jsval \<Rightarrow> string \<Rightarrow> jsval" where
  "get_prop v k =
     (case v of
        JObj kvs \<Rightarrow> (case map_of kvs k of Some x \<Rightarrow> x | None \<Rightarrow> JUndefined)
      | _ \<Rightarrow> JUndefined)"

definition obj_keys :: "jsval \<Rightarrow> string list" where
  "obj_keys v = (case v of JObj kvs \<Rightarrow> map fst kvs | _ \<Rightarrow> [])"

section \<open>Response envelope builder\<close>

text \<open>
  \<open>ApiResponse.success(data, message = 'Success', meta = {})\<close> and
  \<open>ApiResponse.error(message = 'Internal server error', status = 500, details = {})\<close>.
  An argument left out is \<open>undefined\<close> and takes its default; the last argument is the
  property list of the object spread into the envelope, \<open>[]\<close> for the default \<open>{}\<close>.
\<close>

definition ApiResponse_success :: "jsval \<Rightarrow> jsval \<Rightarrow> (string \<times> jsval) list \<Rightarrow> jsval" where
  "ApiResponse_success data message meta =
     (let message' = (if message = JUndefined then JStr ''Success'' else message)
      in JObj (spread [(''success'', JBool True), (''message'', message'), (''data'', data)] meta))"

definition ApiResponse_error :: "jsval \<Rightarrow> jsval \<Rightarrow> (string \<times> jsval) list \<Rightarrow> jsval" where
  "ApiResponse_error message status details =
     (let message' = (if message = JUndefined then JStr ''Internal server error'' else message);
          status' = (if status = JUndefined then num 500 else status)
      in JObj (spread [(''success'', JBool False), (''message'', message'), (''status'', status')]
                 details))"

section \<open>Validation helpers\<close>

text \<open>
  A failure is an \<open>Error\<close> object, of which the wrapper reads three properties. Every
  \<open>throw\<close> of the controller and every rejection of the persistence client is such an
  object; \<open>new Error(m)\<close> has the message and neither a status nor a code.
\<close>

record js_error =
  message :: jsval
  status :: jsval
  code :: jsval

definition new_Error :: "string \<Rightarrow> js_error" where
  "new_Error m = \<lparr>message = JStr m, status = JUndefined, code = JUndefined\<rparr>"

record pagination =
  page :: jsnum
  limit :: jsnum
  skip :: jsnum

definition validatePagination :: "jsval \<Rightarrow> jsval \<Rightarrow> pagination" where
  "validatePagination page_arg limit_arg =
     (let page' = (if page_arg = JUndefined then num 1 else page_arg);
          limit' = (if limit_arg = JUndefined then num 10 else limit_arg);
          parsedPage = Math_max (Fin 1) (parseInt page');
          parsedLimit = Math_min (Fin 100) (Math_max (Fin 1) (parseInt limit'))
      in \<lparr>page = parsedPage, limit = parsedLimit,
          skip = js_mul (js_sub parsedPage (Fin 1)) parsedLimit\<rparr>)"

definition validateId :: "jsval \<Rightarrow> jsval \<Rightarrow> js_error + jsnum" where
  "validateId ident entityName =
     (let entityName' = (if entityName = JUndefined then JStr ''ID'' else entityName);
          parsed = parseInt ident
      in if isNaN parsed \<or> js_le parsed (Fin 0)
         then Inl (new_Error (''Invalid '' @ ToString entityName' @ '' provided''))
         else Inr parsed)"

section \<open>Request handler wrapper\<close>

text \<open>
  The request carries its path, the route parameter \<open>id\<close> and the four query parameters
  the handlers read; a parameter that was not sent is \<open>undefined\<close>. The response object
  holds the status code and the JSON body written so far; the transport creates it with
  status 200.
\<close>

record request =
  path :: jsval
  params_id :: jsval
  query_page :: jsval
  query_limit :: jsval
  query_search :: jsval
  query_name :: jsval

record response =
  statusCode :: jsval
  body :: jsval

definition new_response :: response where
  "new_response = \<lparr>statusCode = num 200, body = JUndefined\<rparr>"

definition res_status :: "jsval \<Rightarrow> response \<Rightarrow> response" where
  "res_status c res = res\<lparr>statusCode := c\<rparr>"

definition res_json :: "jsval \<Rightarrow> response \<Rightarrow> response" where
  "res_json b res = res\<lparr>body := b\<rparr>"

text \<open>
  A handler either completes, leaving the response it wrote (\<open>Inr\<close>), or throws or rejects
  (\<open>Inl\<close>); the handlers of this controller throw only before they write anything. The
  wrapper's \<open>catch\<close> also sends a record to the logger, which has no part in the response
  and is left out.
\<close>

type_synonym handler = "request \<Rightarrow> response \<Rightarrow> js_error + response"

definition asyncHandler :: "handler \<Rightarrow> request \<Rightarrow> response \<Rightarrow> response" where
  "asyncHandler handler req res =
     (case handler req res of
        Inr res' \<Rightarrow> res'
      | Inl error \<Rightarrow>
          let status' = js_or (status error)
                          (if code error = JStr ''P2025'' then num 404 else num 500);
              response = ApiResponse_error
                           (js_or (message error) (JStr ''An unexpected error occurred''))
                           status' [(''path'', path req)]
          in res_json response (res_status (get_prop response ''status'') res))"

section \<open>Persistence collaborator\<close>

text \<open>
  The Prisma client is outside the controller: it is a parameter. Each query takes its
  argument object and either rejects with a failure or resolves, \<open>findMany\<close> to an array of
  rows and \<open>count\<close> to a number of rows. When both queries of a \<open>Promise.all\<close> reject, the
  rejection that settles first wins; \<open>count_rejects_first\<close> says which one that is.
\<close>

record prisma =
  waste_type_findMany :: "jsval \<Rightarrow> js_error + jsval list"
  waste_findMany :: "jsval \<Rightarrow> js_error + jsval list"
  waste_count :: "jsval \<Rightarrow> js_error + nat"
  count_rejects_first :: bool

definition Promise_all :: "bool \<Rightarrow> js_error + 'a \<Rightarrow> js_error + 'b \<Rightarrow> js_error + 'a \<times> 'b" where
  "Promise_all second_first a b =
     (case a of
        Inr x \<Rightarrow> (case b of Inr y \<Rightarrow> Inr (x, y) | Inl e \<Rightarrow> Inl e)
      | Inl e \<Rightarrow> (case b of Inr y \<Rightarrow> Inl e | Inl e' \<Rightarrow> Inl (if second_first then e' else e)))"

text \<open>
  What the controller relies on when it passes \<open>take\<close>: a \<open>findMany\<close> given an integer
  \<open>take\<close> resolves to at most that many rows (a negative \<open>take\<close> counts from the end).
\<close>

definition honours_take :: "prisma \<Rightarrow> bool" where
  "honours_take p =
     (\<forall>args rows n. waste_findMany p args = Inr rows \<and> get_prop args ''take'' = num n \<longrightarrow>
        int (length rows) \<le> \<bar>n\<bar>)"

section \<open>Endpoint handlers\<close>

definition WASTE_TYPE_SELECT :: jsval where
  "WASTE_TYPE_SELECT =
     JObj [(''waste_type_id'', JBool True), (''waste_type_name'', JBool True),
           (''image'', JBool True)]"

definition WASTE_SELECT_props :: "(string \<times> jsval) list" where
  "WASTE_SELECT_props =
     [(''waste_id'', JBool True), (''waste_name'', JBool True), (''image'', JBool True),
      (''description'', JBool True), (''waste_type_id'', JBool True)]"

definition WASTE_SELECT :: jsval where
  "WASTE_SELECT = JObj WASTE_SELECT_props"

text \<open>
  \<open>v?.trim()\<close>: \<open>undefined\<close> for a missing value, the trimmed string for a string, and a
  \<open>TypeError\<close> for anything else (an array or object built by the query parser has no
  \<open>trim\<close> method).
\<close>

definition optional_trim :: "string \<Rightarrow> jsval \<Rightarrow> js_error + jsval" where
  "optional_trim expr v =
     (case v of
        JUndefined \<Rightarrow> Inr JUndefined
      | JNull \<Rightarrow> Inr JUndefined
      | JStr s \<Rightarrow> Inr (JStr (trim s))
      | _ \<Rightarrow> Inl (new_Error (expr @ ''?.trim is not a function'')))"

definition name_contains :: "jsval \<Rightarrow> jsval" where
  "name_contains s =
     JObj [(''waste_name'', JObj [(''contains'', s), (''mode'', JStr ''insensitive'')])]"

definition getAllWasteTypes_handler :: "prisma \<Rightarrow> handler" where
  "getAllWasteTypes_handler p req res =
     (case waste_type_findMany p
             (JObj [(''select'', WASTE_TYPE_SELECT),
                    (''orderBy'', JObj [(''waste_type_name'', JStr ''asc'')])]) of
        Inl e \<Rightarrow> Inl e
      | Inr wasteTypes \<Rightarrow>
          if \<not> truthy (num (int (length wasteTypes)))
          then let response = ApiResponse_error (JStr ''No waste types found.'') (num 404) []
               in Inr (res_json response (res_status (num 404) res))
          else Inr (res_json (ApiResponse_success (JArr wasteTypes) JUndefined []) res))"

definition getAllWasteTypes :: "prisma \<Rightarrow> request \<Rightarrow> response \<Rightarrow> response" where
  "getAllWasteTypes p = asyncHandler (getAllWasteTypes_handler p)"

definition waste_by_type_query :: "jsnum \<Rightarrow> jsval" where
  "waste_by_type_query wasteTypeId =
     JObj [(''where'', JObj [(''waste_type_id'', JNum wasteTypeId)]),
           (''select'', JObj (spread WASTE_SELECT_props
                                [(''waste_type'', JObj [(''select'', WASTE_TYPE_SELECT)])])),
           (''orderBy'', JObj [(''waste_name'', JStr ''asc'')])]"

definition getWasteById_handler :: "prisma \<Rightarrow> handler" where
  "getWasteById_handler p req res =
     (case validateId (params_id req) (JStr ''Waste Type'') of
        Inl e \<Rightarrow> Inl e
      | Inr wasteTypeId \<Rightarrow>
          (case waste_findMany p (waste_by_type_query wasteTypeId) of
             Inl e \<Rightarrow> Inl e
           | Inr waste \<Rightarrow>
               if \<not> truthy (num (int (length waste)))
               then let response =
                          ApiResponse_error (JStr ''No waste found for the given ID.'') (num 404) []
                    in Inr (res_json response (res_status (num 404) res))
               else Inr (res_json (ApiResponse_success (JArr waste) JUndefined []) res)))"

definition getWasteById :: "prisma \<Rightarrow> request \<Rightarrow> response \<Rightarrow> response" where
  "getWasteById p = asyncHandler (getWasteById_handler p)"

definition waste_list_where :: "jsval \<Rightarrow> jsval" where
  "waste_list_where search = (if truthy search then name_contains search else JUndefined)"

definition waste_list_query :: "jsval \<Rightarrow> pagination \<Rightarrow> jsval" where
  "waste_list_query where_clause pg =
     JObj [(''where'', where_clause), (''skip'', JNum (skip pg)), (''take'', JNum (limit pg)),
           (''select'', WASTE_SELECT), (''orderBy'', JObj [(''waste_name'', JStr ''asc'')])]"

definition getWasteLists_handler :: "prisma \<Rightarrow> handler" where
  "getWasteLists_handler p req res =
     (let pg = validatePagination (query_page req) (query_limit req)
      in case optional_trim ''req.query.search'' (query_search req) of
           Inl e \<Rightarrow> Inl e
         | Inr search \<Rightarrow>
             let where_clause = waste_list_where search
             in case Promise_all (count_rejects_first p)
                       (waste_findMany p (waste_list_query where_clause pg))
                       (waste_count p (JObj [(''where'', where_clause)])) of
                  Inl e \<Rightarrow> Inl e
                | Inr (wasteData, totalWasteCount) \<Rightarrow>
                    let pagination =
                          JObj [(''total'', num (int totalWasteCount)),
                                (''page'', JNum (page pg)),
                                (''limit'', JNum (limit pg)),
                                (''totalPages'',
                                   JNum (Math_ceil_div (Fin (int totalWasteCount)) (limit pg)))]
                    in Inr (res_json
                              (ApiResponse_success
                                 (JObj [(''items'', JArr wasteData), (''pagination'', pagination)])
                                 JUndefined [])
                              res))"

definition getWasteLists :: "prisma \<Rightarrow> request \<Rightarrow> response \<Rightarrow> response" where
  "getWasteLists p = asyncHandler (getWasteLists_handler p)"

definition waste_name_query :: "jsval \<Rightarrow> jsval" where
  "waste_name_query name =
     JObj [(''where'', name_contains name), (''select'', WASTE_SELECT),
           (''orderBy'', JObj [(''waste_name'', JStr ''asc'')]), (''take'', num 50)]"

definition findWasteName_handler :: "prisma \<Rightarrow> handler" where
  "findWasteName_handler p req res =
     (case optional_trim ''req.query.name'' (query_name req) of
        Inl e \<Rightarrow> Inl e
      | Inr name \<Rightarrow>
          if \<not> truthy name
          then let response = ApiResponse_error (JStr ''Waste name is required.'') (num 400) []
               in Inr (res_json response (res_status (num 400) res))
          else
            (case waste_findMany p (waste_name_query name) of
               Inl e \<Rightarrow> Inl e
             | Inr waste \<Rightarrow>
                 if \<not> truthy (num (int (length waste)))
                 then let response =
                            ApiResponse_error (JStr ''No waste found with the given name.'')
                              (num 404) []
                      in Inr (res_json response (res_status (num 404) res))
                 else Inr (res_json (ApiResponse_success (JArr waste) JUndefined []) res)))"

definition findWasteName :: "prisma \<Rightarrow> request \<Rightarrow> response \<Rightarrow> response" where
  "findWasteName p = asyncHandler (findWasteName_handler p)"

section \<open>Ephemeral cache\<close>

text \<open>
  \<open>createCache\<close> closes over a fresh \<open>Map\<close>; the three operations are functions of that
  map and of the clock \<open>Date.now()\<close>, in milliseconds. A time to live left out takes the
  default of 3600 seconds.
\<close>

record cache_item =
  item_value :: jsval
  expires :: jsnum

text \<open>
  A \<open>Map\<close> compares its keys by value when they are primitive and by reference when
  they are arrays or objects: a key is a primitive value or the reference of an object.
\<close>

datatype cache_key =
    KUndefined
  | KNull
  | KBool bool
  | KNum jsnum
  | KStr string
  | KRef nat

type_synonym cache = "cache_key \<rightharpoonup> cache_item"

definition createCache :: cache where
  "createCache = Map.empty"

definition cache_get :: "cache \<Rightarrow> cache_key \<Rightarrow> int \<Rightarrow> jsval" where
  "cache_get cache key now =
     (case cache key of
        None \<Rightarrow> JNull
      | Some item \<Rightarrow> if js_gt (expires item) (Fin now) then item_value item else JNull)"

definition cache_set :: "cache \<Rightarrow> cache_key \<Rightarrow> jsval \<Rightarrow> int option \<Rightarrow> int \<Rightarrow> cache" where
  "cache_set cache key v ttl now =
     (let ttl' = (case ttl of None \<Rightarrow> 3600 | Some t \<Rightarrow> t)
      in cache(key \<mapsto>
           \<lparr>item_value = v, expires = js_add (Fin now) (js_mul (Fin ttl') (Fin 1000))\<rparr>))"

definition cache_clear :: "cache \<Rightarrow> cache_key \<Rightarrow> cache" where
  "cache_clear cache key = cache(key := None)"

text \<open>
  The middleware. Its first argument is a function of the request, which may throw, or a
  literal key. It ends in one of three ways: it writes the cached value as the response,
  it calls \<open>next()\<close> after attaching to \<open>res.locals.cache\<close> a setter bound to the store,
  the key and the time to live, or it calls \<open>next(error)\<close>.
\<close>

datatype key_source = KeyFunction "request \<Rightarrow> js_error + cache_key" | KeyLiteral cache_key

record locals_cache =
  bound_store :: cache
  bound_key :: cache_key
  bound_ttl :: int

datatype pipeline = Responded jsval | Next locals_cache | NextError js_error

definition locals_cache_set :: "locals_cache \<Rightarrow> jsval \<Rightarrow> int \<Rightarrow> cache" where
  "locals_cache_set h data now =
     cache_set (bound_store h) (bound_key h) data (Some (bound_ttl h)) now"

text \<open>
  \<open>typeof getCacheKey === 'function' ? getCacheKey(req) : getCacheKey\<close>, and the \<open>try\<close>
  block of the middleware, run on the store \<open>cache\<close>.
\<close>

definition cacheKey_of :: "key_source \<Rightarrow> request \<Rightarrow> js_error + cache_key" where
  "cacheKey_of getCacheKey req =
     (case getCacheKey of KeyFunction f \<Rightarrow> f req | KeyLiteral k \<Rightarrow> Inr k)"

definition withCache_try :: "cache \<Rightarrow> key_source \<Rightarrow> int \<Rightarrow> request \<Rightarrow> int \<Rightarrow> pipeline" where
  "withCache_try cache getCacheKey ttl req now =
     (case cacheKey_of getCacheKey req of
        Inl error \<Rightarrow> NextError error
      | Inr cacheKey \<Rightarrow>
          let cached = cache_get cache cacheKey now
          in if truthy cached then Responded cached
             else Next \<lparr>bound_store = cache, bound_key = cacheKey, bound_ttl = ttl\<rparr>)"

text \<open>The middleware itself: every invocation starts by creating its store.\<close>

definition withCache :: "key_source \<Rightarrow> int option \<Rightarrow> request \<Rightarrow> int \<Rightarrow> pipeline" where
  "withCache getCacheKey ttl req now =
     (let ttl' = (case ttl of None \<Rightarrow> 3600 | Some t \<Rightarrow> t);
          cache = createCache
      in withCache_try cache getCacheKey ttl' req now)"

section \<open>Envelope shapes\<close>

text \<open>
  The three shapes a response body takes, by the order of its keys and its \<open>success\<close>
  flag: the success envelope, the error envelope as a handler renders it, and the error
  envelope as the wrapper renders it, with the request path.
\<close>

definition success_envelope :: "jsval \<Rightarrow> bool" where
  "success_envelope b =
     (obj_keys b = [''success'', ''message'', ''data''] \<and> get_prop b ''success'' = JBool True)"

definition error_envelope :: "jsval \<Rightarrow> bool" where
  "error_envelope b =
     (obj_keys b = [''success'', ''message'', ''status''] \<and> get_prop b ''success'' = JBool False)"

definition error_envelope_with_path :: "jsval \<Rightarrow> bool" where
  "error_envelope_with_path b =
     (obj_keys b = [''success'', ''message'', ''status'', ''path'']
      \<and> get_prop b ''success'' = JBool False)"

definition enveloped :: "jsval \<Rightarrow> bool" where
  "enveloped b = (success_envelope b \<or> error_envelope b \<or> error_envelope_with_path b)"

section \<open>Concrete inputs\<close>

text \<open>
  A request with no parameters, a client whose every query rejects with a given failure,
  and two clients over an in-memory table all of whose rows match every filter. Both
  apply \<open>skip\<close> and an integer \<open>take\<close>; given a \<open>take\<close> that is not an integer, the first
  rejects the query and the second applies no limit.
\<close>

definition bare_request :: request where
  "bare_request =
     \<lparr>path = JStr ''/api/waste'', params_id = JUndefined, query_page = JUndefined,
      query_limit = JUndefined, query_search = JUndefined, query_name = JUndefined\<rparr>"

definition rejecting_prisma :: "js_error \<Rightarrow> prisma" where
  "rejecting_prisma e =
     \<lparr>waste_type_findMany = (\<lambda>args. Inl e), waste_findMany = (\<lambda>args. Inl e),
      waste_count = (\<lambda>args. Inl e), count_rejects_first = False\<rparr>"

definition table_findMany :: "jsval list \<Rightarrow> jsval \<Rightarrow> js_error + jsval list" where
  "table_findMany rows args =
     (let skipped = (case get_prop args ''skip'' of
                       JNum (Fin k) \<Rightarrow> drop (nat k) rows
                     | _ \<Rightarrow> rows)
      in case get_prop args ''take'' of
           JUndefined \<Rightarrow> Inr skipped
         | JNum (Fin n) \<Rightarrow> Inr (take (nat n) skipped)
         | _ \<Rightarrow> Inl (new_Error ''Invalid value for argument take''))"

definition table_prisma :: "jsval list \<Rightarrow> prisma" where
  "table_prisma rows =
     \<lparr>waste_type_findMany = (\<lambda>args. Inr rows), waste_findMany = table_findMany rows,
      waste_count = (\<lambda>args. Inr (length rows)), count_rejects_first = False\<rparr>"

definition unchecked_findMany :: "jsval list \<Rightarrow> jsval \<Rightarrow> js_error + jsval list" where
  "unchecked_findMany rows args =
     (let skipped = (case get_prop args ''skip'' of
                       JNum (Fin k) \<Rightarrow> drop (nat k) rows
                     | _ \<Rightarrow> rows)
      in case get_prop args ''take'' of
           JNum (Fin n) \<Rightarrow> Inr (take (nat n) skipped)
         | _ \<Rightarrow> Inr skipped)"

definition unchecked_prisma :: "jsval list \<Rightarrow> prisma" where
  "unchecked_prisma rows =
     \<lparr>waste_type_findMany = (\<lambda>args. Inr rows), waste_findMany = unchecked_findMany rows,
      waste_count = (\<lambda>args. Inr (length rows)), count_rejects_first = False\<rparr>"

section \<open>Properties of the numbers\<close>

lemma bit_length_le: "n < 2 ^ k \<Longrightarrow> bit_length n \<le> k"
proof (induction k arbitrary: n)
  case 0
  then show ?case by (simp add: bit_length.simps)
next
  case (Suc k)
  show ?case
  proof (cases "n = 0")
    case True
    then show ?thesis by (simp add: bit_length.simps)
  next
    case False
    from Suc.prems have "n div 2 < 2 ^ k" by simp
    from Suc.IH [OF this] False show ?thesis
      by (subst bit_length.simps) simp
  qed
qed

text \<open>
  Up to \<open>2 ^ 53\<close> every integer is a double, and from \<open>2 ^ 1024\<close> on every integer
  rounds to an infinity.
\<close>

lemma double_of_nat_small: "n < 2 ^ 53 \<Longrightarrow> double_of_nat n = Some n"
proof -
  assume n: "n < 2 ^ 53"
  then have "bit_length n - 53 = 0"
    using bit_length_le [of n 53] by simp
  moreover have "n < 2 ^ 1024"
    using n by (rule less_trans) simp
  ultimately show ?thesis
    by (simp add: double_of_nat_def round_half_even_def Let_def)
qed

lemma to_double_small: "\<bar>a\<bar> < 2 ^ 53 \<Longrightarrow> to_double a = Fin a"
proof -
  assume a: "\<bar>a\<bar> < 2 ^ 53"
  then have "nat \<bar>a\<bar> < 2 ^ 53"
    by (simp add: nat_less_iff)
  then have "double_of_nat (nat \<bar>a\<bar>) = Some (nat \<bar>a\<bar>)"
    by (rule double_of_nat_small)
  then show ?thesis
    by (simp add: to_double_def sgn_if)
qed


lemma bit_length_gt: "2 ^ k \<le> n \<Longrightarrow> k < bit_length n"
proof (induction k arbitrary: n)
  case 0
  then show ?case by (subst bit_length.simps) simp
next
  case (Suc k)
  have "(0::nat) < 2 ^ Suc k" by simp
  with Suc.prems have pos: "n \<noteq> 0" by linarith
  from Suc.prems have "2 ^ k \<le> n div 2" by simp
  from Suc.IH [OF this] pos show ?case
    by (subst bit_length.simps) simp
qed

lemma round_half_even_ge: "N div D \<le> round_half_even N D"
  by (simp add: round_half_even_def Let_def)

lemma double_of_nat_huge:
  assumes "2 ^ 1024 \<le> n"
  shows "double_of_nat n = None"
proof -
  define e where "e = bit_length n - 53"
  from assms have big: "1024 < bit_length n"
    by (rule bit_length_gt)
  have "\<not> n < 2 ^ (bit_length n - 1)"
  proof
    assume "n < 2 ^ (bit_length n - 1)"
    from bit_length_le [OF this] big show False by simp
  qed
  then have low: "2 ^ (bit_length n - 1) \<le> n" by simp
  have split: "bit_length n - 1 = 52 + e"
    using big by (simp add: e_def)
  have "(2::nat) ^ 52 = 2 ^ (52 + e) div 2 ^ e"
    by (simp only: power_add nonzero_mult_div_cancel_right power_eq_0_iff) simp
  also have "\<dots> \<le> n div 2 ^ e"
    using low by (simp only: split div_le_mono)
  also have "\<dots> \<le> round_half_even n (2 ^ e)"
    by (rule round_half_even_ge)
  finally have "2 ^ 52 * 2 ^ e \<le> round_half_even n (2 ^ e) * 2 ^ e"
    by (rule mult_le_mono1)
  moreover have "972 \<le> e"
    using big by (simp add: e_def)
  then have "(2::nat) ^ (52 + 972) \<le> 2 ^ (52 + e)"
    by (intro power_increasing) simp_all
  then have "(2::nat) ^ 1024 \<le> 2 ^ 52 * 2 ^ e"
    by (simp only: power_add [symmetric]) simp
  ultimately have "2 ^ 1024 \<le> round_half_even n (2 ^ e) * 2 ^ e"
    by (rule order_trans [rotated])
  then show ?thesis
    unfolding double_of_nat_def Let_def e_def by (simp only: if_True)
qed

lemma to_double_huge: "2 ^ 1024 \<le> a \<Longrightarrow> to_double a = PosInf"
proof -
  assume a: "2 ^ 1024 \<le> a"
  have "(0::int) < 2 ^ 1024" by simp
  with a have pos: "0 < a" by linarith
  from a have "2 ^ 1024 \<le> nat \<bar>a\<bar>"
    by (simp add: le_nat_iff)
  then have "double_of_nat (nat \<bar>a\<bar>) = None"
    by (rule double_of_nat_huge)
  with pos show ?thesis
    by (simp add: to_double_def)
qed


lemma positive_toString_1: "positive_toString 1 = ''1''"
  by (simp add: positive_toString_def shortest_digits_def digit_candidates_def round_trips_def
      nearer_def double_of_nat_small dec_digits.simps upt_conv_Cons strip_zeros_def Let_def)

lemma positive_toString_Suc_0: "positive_toString (Suc 0) = ''1''"
  using positive_toString_1 by simp

lemma positive_toString_10: "positive_toString 10 = ''10''"
  by (simp add: positive_toString_def shortest_digits_def digit_candidates_def round_trips_def
      nearer_def double_of_nat_small dec_digits.simps upt_conv_Cons strip_zeros_def Let_def)


section \<open>Properties of the validation helpers\<close>

lemma parseInt_abc: "parseInt (JStr ''abc'') = NaN"
  by (simp add: parseInt_def parseInt_string_def is_ws_def is_digit_def)


lemma parseInt_one: "parseInt (num 1) = Fin 1"
  by (simp add: parseInt_def parseInt_string_def positive_toString_Suc_0 is_ws_def is_digit_def
      digits_value_def digit_val_def to_double_small)

lemma parseInt_ten: "parseInt (num 10) = Fin 10"
  by (simp add: parseInt_def parseInt_string_def positive_toString_10 is_ws_def is_digit_def
      digits_value_def digit_val_def to_double_small)



text \<open>
  Beyond \<open>2 ^ 53\<close> the parse is the nearest double, and digits that denote \<open>2 ^ 1024\<close> or
  more parse to \<open>Infinity\<close>: an id of 310 nines is such a one.
\<close>

lemma parseInt_rounds: "parseInt (JStr ''9007199254740993'') = Fin 9007199254740992"
  by (simp add: parseInt_def parseInt_string_def is_ws_def is_digit_def digits_value_def
      digit_val_def to_double_def double_of_nat_def round_half_even_def bit_length.simps Let_def)

lemma digits_value_nines:
  "foldl (\<lambda>acc c. 10 * acc + digit_val c) a (replicate n CHR ''9'') + 1 = (a + 1) * 10 ^ n"
proof (induction n arbitrary: a)
  case 0
  then show ?case by simp
next
  case (Suc n)
  have "digit_val CHR ''9'' = 9"
    by (simp add: digit_val_def)
  then have "foldl (\<lambda>acc c. 10 * acc + digit_val c) a (replicate (Suc n) CHR ''9'') + 1
               = (10 * a + 9 + 1) * 10 ^ n"
    using Suc [of "10 * a + 9"] by simp
  also have "\<dots> = (a + 1) * 10 ^ Suc n"
    by (simp add: algebra_simps)
  finally show ?case .
qed

lemma parseInt_overflows: "parseInt (JStr (replicate 310 CHR ''9'')) = PosInf"
proof -
  define nines where "nines = replicate 310 CHR ''9''"
  have ne: "nines \<noteq> []" and first: "hd nines = CHR ''9''" and all: "set nines = {CHR ''9''}"
    by (simp_all add: nines_def del: replicate.simps)
  have dw: "dropWhile is_ws nines = nines"
    by (simp add: dropWhile_eq_self_iff first is_ws_def)
  have tw: "takeWhile is_digit nines = nines"
    by (simp add: takeWhile_eq_all_conv all is_digit_def)
  have "digits_value nines + 1 = 10 ^ 310"
    unfolding digits_value_def nines_def using digits_value_nines [of 0 310] by simp
  then have "int (digits_value nines) = 10 ^ 310 - 1"
    by (metis add_diff_cancel_right' of_nat_1 of_nat_add of_nat_numeral of_nat_power)
  moreover have "to_double (10 ^ 310 - 1) = PosInf"
    by (rule to_double_huge) simp
  ultimately have inf: "to_double (int (digits_value nines)) = PosInf"
    by (simp only:)
  have "parseInt_string nines = PosInf"
    by (simp add: parseInt_string_def Let_def dw tw ne first inf)
  then show ?thesis
    by (simp add: parseInt_def nines_def del: replicate.simps)
qed



text \<open>
  Claim C1. \<open>validatePagination\<close> is to return a page of at least 1 and a limit between 1
  and 100 for every input, non-numeric ones included. On the page \<open>"abc"\<close> the parse is
  \<open>NaN\<close>, \<open>Math.max(1, NaN)\<close> is \<open>NaN\<close>, and the page and the skip returned are \<open>NaN\<close>.
\<close>

theorem validatePagination_non_numeric:
  "validatePagination (JStr ''abc'') (JStr ''10'') = \<lparr>page = NaN, limit = Fin 10, skip = NaN\<rparr>"
  by (simp add: validatePagination_def Let_def parseInt_abc Math_max_def Math_min_def js_sub_def
      parseInt_def parseInt_string_def is_ws_def is_digit_def digits_value_def digit_val_def
      to_double_small)

lemma validatePagination_defaults:
  "validatePagination JUndefined JUndefined = \<lparr>page = Fin 1, limit = Fin 10, skip = Fin 0\<rparr>"
  by (simp add: validatePagination_def Let_def parseInt_one parseInt_ten Math_max_def
      Math_min_def js_sub_def to_double_small)

lemma validatePagination_2_50:
  "validatePagination (JStr ''2'') (JStr ''50'')
     = \<lparr>page = Fin 2, limit = Fin 50, skip = Fin 50\<rparr>"
  by (simp add: validatePagination_def Let_def Math_max_def Math_min_def js_sub_def
      parseInt_def parseInt_string_def is_ws_def is_digit_def digits_value_def digit_val_def
      to_double_small)

lemma validatePagination_limit_abc:
  "validatePagination JUndefined (JStr ''abc'') = \<lparr>page = Fin 1, limit = NaN, skip = NaN\<rparr>"
  by (simp add: validatePagination_def Let_def parseInt_one parseInt_abc Math_max_def
      Math_min_def js_sub_def to_double_small)

text \<open>Whatever the input, the limit is \<open>NaN\<close> or lies between 1 and 100.\<close>

lemma validatePagination_limit:
  "limit (validatePagination pa la) = NaN
   \<or> (\<exists>l. limit (validatePagination pa la) = Fin l \<and> 1 \<le> l \<and> l \<le> 100)"
  by (cases "parseInt (if la = JUndefined then num 10 else la)")
     (auto simp add: validatePagination_def Let_def Math_max_def Math_min_def)

lemma bit_length_120: "bit_length 120 = 7"
  by (simp add: bit_length.simps)

lemma bit_length_50: "bit_length 50 = 6"
  by (simp add: bit_length.simps)

lemma quotient_exponent_120_50: "quotient_exponent 120 50 = - 51"
  by (simp add: quotient_exponent_def scaled_num_def scaled_den_def bit_length_120
      bit_length_50 Let_def)

lemma Math_ceil_div_120_50: "Math_ceil_div (Fin 120) (Fin 50) = Fin 3"
  by (simp add: ceil_quotient_def quotient_mantissa_def quotient_exponent_120_50
      scaled_num_def scaled_den_def round_half_even_def Let_def)
section \<open>Properties of the wrapper and the envelopes\<close>

lemma js_or_defined: "b \<noteq> JUndefined \<Longrightarrow> js_or a b \<noteq> JUndefined"
  by (cases a) (simp_all add: js_or_def)

lemma ApiResponse_error_plain:
  "m \<noteq> JUndefined \<Longrightarrow> st \<noteq> JUndefined \<Longrightarrow>
   ApiResponse_error m st [] = JObj [(''success'', JBool False), (''message'', m), (''status'', st)]"
  by (simp add: ApiResponse_error_def spread_def set_prop_def is_index_def is_digit_def)

lemma ApiResponse_error_path:
  "m \<noteq> JUndefined \<Longrightarrow> st \<noteq> JUndefined \<Longrightarrow>
   ApiResponse_error m st [(''path'', pth)]
     = JObj [(''success'', JBool False), (''message'', m), (''status'', st), (''path'', pth)]"
  by (simp add: ApiResponse_error_def spread_def set_prop_def is_index_def is_digit_def)

lemma ApiResponse_success_plain:
  "ApiResponse_success d JUndefined []
     = JObj [(''success'', JBool True), (''message'', JStr ''Success''), (''data'', d)]"
  by (simp add: ApiResponse_success_def spread_def)

lemma asyncHandler_completes: "handler req res = Inr r \<Longrightarrow> asyncHandler handler req res = r"
  by (simp add: asyncHandler_def)

lemma asyncHandler_renders:
  assumes "handler req res = Inl error"
  shows "asyncHandler handler req res =
     \<lparr>statusCode = js_or (status error) (if code error = JStr ''P2025'' then num 404 else num 500),
      body = JObj [(''success'', JBool False),
                   (''message'', js_or (message error) (JStr ''An unexpected error occurred'')),
                   (''status'', js_or (status error)
                                  (if code error = JStr ''P2025'' then num 404 else num 500)),
                   (''path'', path req)]\<rparr>"
proof -
  let ?st = "js_or (status error) (if code error = JStr ''P2025'' then num 404 else num 500)"
  let ?m = "js_or (message error) (JStr ''An unexpected error occurred'')"
  have st: "?st \<noteq> JUndefined" by (rule js_or_defined) simp
  have m: "?m \<noteq> JUndefined" by (rule js_or_defined) simp
  show ?thesis
    using assms
    by (simp add: asyncHandler_def Let_def ApiResponse_error_path [OF m st] get_prop_def
        res_json_def res_status_def)
qed

text \<open>
  Claim C5, amended. Every failure of a wrapped handler ends in a response (the wrapper
  returns one, nothing escapes it): the error envelope with the request path, whose
  status, also the HTTP status, is the failure's own status if that is truthy, else 404
  if the failure's code is \<open>P2025\<close>, else 500. A failure with code \<open>P2025\<close> and no truthy
  status gives 404.
\<close>

theorem asyncHandler_catches:
  assumes "handler req res = Inl error"
  shows "asyncHandler handler req res =
           (let st = (if truthy (status error) then status error
                      else if code error = JStr ''P2025'' then num 404 else num 500)
            in \<lparr>statusCode = st,
                body = JObj [(''success'', JBool False),
                             (''message'', if truthy (message error) then message error
                                           else JStr ''An unexpected error occurred''),
                             (''status'', st), (''path'', path req)]\<rparr>)
         \<and> (\<not> truthy (status error) \<and> code error = JStr ''P2025'' \<longrightarrow>
              statusCode (asyncHandler handler req res) = num 404)"
  using assms by (simp add: asyncHandler_renders js_or_def Let_def)

theorem asyncHandler_catches_witness:
  "getAllWasteTypes_handler
      (rejecting_prisma
         \<lparr>message = JStr ''Record not found'', status = JUndefined, code = JStr ''P2025''\<rparr>)
      bare_request new_response
     = Inl \<lparr>message = JStr ''Record not found'', status = JUndefined, code = JStr ''P2025''\<rparr>
   \<and> asyncHandler
        (getAllWasteTypes_handler
           (rejecting_prisma
              \<lparr>message = JStr ''Record not found'', status = JUndefined,
               code = JStr ''P2025''\<rparr>))
        bare_request new_response
     = \<lparr>statusCode = num 404,
        body = JObj [(''success'', JBool False), (''message'', JStr ''Record not found''),
                     (''status'', num 404), (''path'', JStr ''/api/waste'')]\<rparr>"
proof -
  let ?e = "\<lparr>message = JStr ''Record not found'', status = JUndefined, code = JStr ''P2025''\<rparr>"
  have r: "getAllWasteTypes_handler (rejecting_prisma ?e) bare_request new_response = Inl ?e"
    by (simp add: getAllWasteTypes_handler_def rejecting_prisma_def)
  show ?thesis
    using asyncHandler_catches
      [where handler = "getAllWasteTypes_handler (rejecting_prisma ?e)" and req = bare_request
         and res = new_response and error = ?e] r
    by (simp add: bare_request_def Let_def)
qed

text \<open>
  Claim C5 as stated takes the failure's declared status whenever it is present. A
  failure that declares the status 0 is answered with 500: \<open>||\<close> passes over a falsy status.
\<close>

theorem asyncHandler_status_zero_counterexample:
  "getAllWasteTypes_handler
      (rejecting_prisma \<lparr>message = JStr ''down'', status = num 0, code = JUndefined\<rparr>)
      bare_request new_response
     = Inl \<lparr>message = JStr ''down'', status = num 0, code = JUndefined\<rparr>
   \<and> statusCode (getAllWasteTypes
        (rejecting_prisma \<lparr>message = JStr ''down'', status = num 0, code = JUndefined\<rparr>)
        bare_request new_response) = num 500"
  by (simp add: getAllWasteTypes_def getAllWasteTypes_handler_def rejecting_prisma_def
      asyncHandler_renders js_or_def)

text \<open>
  Claim C2. A path id that fails validation is to be answered with status 400. The
  failure \<open>validateId\<close> throws has no status, so the wrapper answers \<open>"abc"\<close> with 500.
\<close>

lemma validateId_abc:
  "validateId (JStr ''abc'') (JStr ''Waste Type'') = Inl (new_Error ''Invalid Waste Type provided'')"
  by (simp add: validateId_def Let_def parseInt_abc isNaN_def)

theorem getWasteById_invalid_id:
  "getWasteById p (bare_request\<lparr>params_id := JStr ''abc''\<rparr>) res
     = \<lparr>statusCode = num 500,
        body = JObj [(''success'', JBool False), (''message'', JStr ''Invalid Waste Type provided''),
                     (''status'', num 500), (''path'', JStr ''/api/waste'')]\<rparr>"
proof -
  have "getWasteById_handler p (bare_request\<lparr>params_id := JStr ''abc''\<rparr>) res
          = Inl (new_Error ''Invalid Waste Type provided'')"
    by (simp add: getWasteById_handler_def validateId_abc)
  then show ?thesis
    by (simp add: getWasteById_def asyncHandler_renders new_Error_def js_or_def bare_request_def)
qed

subsection \<open>Shapes of the response bodies\<close>

lemma enveloped_success: "enveloped (ApiResponse_success d JUndefined [])"
  by (simp add: ApiResponse_success_plain enveloped_def success_envelope_def obj_keys_def
      get_prop_def)

lemma enveloped_error: "enveloped (ApiResponse_error (JStr m) (num st) [])"
  by (simp add: ApiResponse_error_plain enveloped_def error_envelope_def obj_keys_def
      get_prop_def)

lemma asyncHandler_enveloped:
  assumes "\<And>r. handler req res = Inr r \<Longrightarrow> enveloped (body r)"
  shows "enveloped (body (asyncHandler handler req res))"
proof (cases "handler req res")
  case (Inl e)
  then show ?thesis
    by (simp add: asyncHandler_renders enveloped_def error_envelope_with_path_def obj_keys_def
        get_prop_def)
next
  case (Inr r)
  then show ?thesis
    using assms by (simp add: asyncHandler_completes)
qed

lemma getAllWasteTypes_enveloped: "enveloped (body (getAllWasteTypes p req res))"
  unfolding getAllWasteTypes_def
  by (rule asyncHandler_enveloped)
     (auto simp add: getAllWasteTypes_handler_def res_json_def res_status_def Let_def
        enveloped_success enveloped_error split: sum.splits if_splits)

lemma getWasteById_enveloped: "enveloped (body (getWasteById p req res))"
  unfolding getWasteById_def
  by (rule asyncHandler_enveloped)
     (auto simp add: getWasteById_handler_def res_json_def res_status_def Let_def
        enveloped_success enveloped_error split: sum.splits if_splits)

lemma getWasteLists_enveloped: "enveloped (body (getWasteLists p req res))"
  unfolding getWasteLists_def
  by (rule asyncHandler_enveloped)
     (auto simp add: getWasteLists_handler_def res_json_def res_status_def Let_def
        enveloped_success enveloped_error split: sum.splits if_splits prod.splits)

lemma findWasteName_enveloped: "enveloped (body (findWasteName p req res))"
  unfolding findWasteName_def
  by (rule asyncHandler_enveloped)
     (auto simp add: findWasteName_handler_def res_json_def res_status_def Let_def
        enveloped_success enveloped_error split: sum.splits if_splits)

lemma getWasteLists_data_keys:
  assumes "success_envelope (body (getWasteLists p req res))"
  shows "obj_keys (get_prop (body (getWasteLists p req res)) ''data'') = [''items'', ''pagination'']"
proof (cases "getWasteLists_handler p req res")
  case (Inl e)
  then have "obj_keys (body (getWasteLists p req res))
               = [''success'', ''message'', ''status'', ''path'']"
    by (simp add: getWasteLists_def asyncHandler_renders obj_keys_def)
  with assms show ?thesis
    by (simp add: success_envelope_def)
next
  case (Inr r)
  then have "\<exists>items pagination.
      r = res_json (ApiResponse_success
                      (JObj [(''items'', items), (''pagination'', pagination)]) JUndefined []) res"
    by (auto simp add: getWasteLists_handler_def Let_def split: sum.splits prod.splits)
  then show ?thesis
    using Inr
    by (auto simp add: getWasteLists_def
        asyncHandler_completes [where handler = "getWasteLists_handler p"]
        res_json_def ApiResponse_success_plain get_prop_def obj_keys_def)
qed

lemma getAllWasteTypes_empty:
  "getAllWasteTypes (table_prisma []) bare_request new_response
     = \<lparr>statusCode = num 404,
        body = JObj [(''success'', JBool False), (''message'', JStr ''No waste types found.''),
                     (''status'', num 404)]\<rparr>"
  by (simp add: getAllWasteTypes_def getAllWasteTypes_handler_def table_prisma_def
      asyncHandler_def ApiResponse_error_plain res_json_def res_status_def new_response_def)

text \<open>
  Claim C4, amended. For each of the four endpoints, whatever the request and whatever
  the persistence client answers, the response body is one envelope of one of three
  shapes: \<open>{success: true, message, data}\<close>, where for the paginated list \<open>data\<close> holds
  \<open>items\<close> and \<open>pagination\<close>; \<open>{success: false, message, status}\<close>, the errors a handler
  renders itself; or \<open>{success: false, message, status, path}\<close>, the failures the wrapper
  renders.
\<close>

theorem handlers_enveloped:
  "enveloped (body (getAllWasteTypes p req res))
   \<and> enveloped (body (getWasteById p req res))
   \<and> enveloped (body (getWasteLists p req res))
   \<and> enveloped (body (findWasteName p req res))
   \<and> (success_envelope (body (getWasteLists p req res)) \<longrightarrow>
        obj_keys (get_prop (body (getWasteLists p req res)) ''data'')
          = [''items'', ''pagination''])"
  by (simp add: getAllWasteTypes_enveloped getWasteById_enveloped getWasteLists_enveloped
      findWasteName_enveloped getWasteLists_data_keys)

theorem handlers_enveloped_witness:
  "success_envelope (body (getWasteLists (table_prisma []) bare_request new_response))
   \<and> obj_keys (get_prop (body (getWasteLists (table_prisma []) bare_request new_response))
                 ''data'') = [''items'', ''pagination'']
   \<and> enveloped (body (getAllWasteTypes (table_prisma []) bare_request new_response))
   \<and> error_envelope (body (getAllWasteTypes (table_prisma []) bare_request new_response))"
proof -
  have "getWasteLists_handler (table_prisma []) bare_request new_response
          = Inr (res_json
                   (ApiResponse_success
                      (JObj [(''items'', JArr []),
                             (''pagination'',
                                JObj [(''total'', num 0), (''page'', JNum (Fin 1)),
                                      (''limit'', JNum (Fin 10)), (''totalPages'', JNum (Fin 0))])])
                      JUndefined [])
                   new_response)"
    by (simp add: getWasteLists_handler_def Let_def bare_request_def optional_trim_def
        waste_list_where_def waste_list_query_def table_prisma_def table_findMany_def
        get_prop_def Promise_all_def validatePagination_defaults)
  then have "success_envelope (body (getWasteLists (table_prisma []) bare_request new_response))"
    by (simp add: getWasteLists_def asyncHandler_def res_json_def ApiResponse_success_plain
        success_envelope_def obj_keys_def get_prop_def)
  moreover have
    "error_envelope (body (getAllWasteTypes (table_prisma []) bare_request new_response))"
    by (simp add: getAllWasteTypes_empty error_envelope_def obj_keys_def get_prop_def)
  ultimately show ?thesis
    using handlers_enveloped [of "table_prisma []" bare_request new_response] by simp
qed

text \<open>
  Claim C4 as stated allows an error body only with the request path. On an empty table
  of waste types the body is \<open>{success: false, message, status}\<close>, with no path.
\<close>

theorem error_without_path_counterexample:
  "obj_keys (body (getAllWasteTypes (table_prisma []) bare_request new_response))
     = [''success'', ''message'', ''status'']
   \<and> get_prop (body (getAllWasteTypes (table_prisma []) bare_request new_response)) ''success''
     = JBool False
   \<and> \<not> success_envelope (body (getAllWasteTypes (table_prisma []) bare_request new_response))
   \<and> \<not> error_envelope_with_path
         (body (getAllWasteTypes (table_prisma []) bare_request new_response))"
  by (simp add: getAllWasteTypes_empty obj_keys_def get_prop_def success_envelope_def
      error_envelope_with_path_def)

section \<open>Properties of the list and search handlers\<close>

lemma honours_takeD:
  assumes "honours_take p" and "waste_findMany p args = Inr rows"
    and "get_prop args ''take'' = num n"
  shows "int (length rows) \<le> \<bar>n\<bar>"
  using assms unfolding honours_take_def by blast

lemma honours_take_table: "honours_take (table_prisma rows)"
  by (auto simp add: honours_take_def table_prisma_def table_findMany_def Let_def
      split: jsval.splits jsnum.splits)

lemma honours_take_unchecked: "honours_take (unchecked_prisma rows)"
  by (auto simp add: honours_take_def unchecked_prisma_def unchecked_findMany_def Let_def
      split: jsval.splits jsnum.splits)

lemma take_of_waste_list_query: "get_prop (waste_list_query w pg) ''take'' = JNum (limit pg)"
  by (simp add: waste_list_query_def get_prop_def)

lemma take_of_waste_name_query: "get_prop (waste_name_query n) ''take'' = num 50"
  by (simp add: waste_name_query_def get_prop_def)

text \<open>
  The paginated list when its search parameter is absent or a string and its two
  queries resolve, with a client that returns at most \<open>take\<close> rows: the status is left as
  the transport set it, and the body is the success envelope whose data holds the rows
  as \<open>items\<close> and, as \<open>pagination\<close>, the count, the page, the limit and
  \<open>Math.ceil(total / limit)\<close>. When the limit is an integer \<open>l\<close>, it lies between 1 and
  100 and there are at most \<open>l\<close> items.
\<close>

lemma getWasteLists_resolved:
  assumes "honours_take p"
    and "optional_trim ''req.query.search'' (query_search req) = Inr search"
    and "waste_findMany p
           (waste_list_query (waste_list_where search)
              (validatePagination (query_page req) (query_limit req))) = Inr wasteData"
    and "waste_count p (JObj [(''where'', waste_list_where search)]) = Inr totalWasteCount"
  shows "statusCode (getWasteLists p req res) = statusCode res
     \<and> body (getWasteLists p req res) =
         JObj [(''success'', JBool True), (''message'', JStr ''Success''),
           (''data'', JObj [(''items'', JArr wasteData),
              (''pagination'',
                 JObj [(''total'', num (int totalWasteCount)),
                       (''page'', JNum (page (validatePagination (query_page req)
                                                (query_limit req)))),
                       (''limit'', JNum (limit (validatePagination (query_page req)
                                                  (query_limit req)))),
                       (''totalPages'',
                          JNum (Math_ceil_div (Fin (int totalWasteCount))
                                  (limit (validatePagination (query_page req)
                                            (query_limit req)))))])])]
     \<and> (\<forall>l. limit (validatePagination (query_page req) (query_limit req)) = Fin l \<longrightarrow>
            1 \<le> l \<and> l \<le> 100 \<and> int (length wasteData) \<le> l)"
proof -
  let ?pg = "validatePagination (query_page req) (query_limit req)"
  have run: "getWasteLists_handler p req res =
      Inr (res_json
             (ApiResponse_success
                (JObj [(''items'', JArr wasteData),
                       (''pagination'',
                          JObj [(''total'', num (int totalWasteCount)),
                                (''page'', JNum (page ?pg)),
                                (''limit'', JNum (limit ?pg)),
                                (''totalPages'',
                                   JNum (Math_ceil_div (Fin (int totalWasteCount))
                                           (limit ?pg)))])])
                JUndefined [])
             res)"
    using assms(2-4) by (simp add: getWasteLists_handler_def Let_def Promise_all_def)
  have response: "getWasteLists p req res =
      res_json
        (ApiResponse_success
           (JObj [(''items'', JArr wasteData),
                  (''pagination'',
                     JObj [(''total'', num (int totalWasteCount)),
                           (''page'', JNum (page ?pg)),
                           (''limit'', JNum (limit ?pg)),
                           (''totalPages'',
                              JNum (Math_ceil_div (Fin (int totalWasteCount)) (limit ?pg)))])])
           JUndefined [])
        res"
    unfolding getWasteLists_def
    by (rule asyncHandler_completes [where handler = "getWasteLists_handler p", OF run])
  have bounds: "1 \<le> l \<and> l \<le> 100 \<and> int (length wasteData) \<le> l"
    if l: "limit ?pg = Fin l" for l
  proof -
    from validatePagination_limit [of "query_page req" "query_limit req"] l
    have range: "1 \<le> l" "l \<le> 100" by auto
    have "get_prop (waste_list_query (waste_list_where search) ?pg) ''take'' = num l"
      by (simp add: take_of_waste_list_query l)
    from honours_takeD [OF assms(1) assms(3) this] range
    have "int (length wasteData) \<le> l" by simp
    with range show ?thesis by simp
  qed
  have "statusCode (getWasteLists p req res) = statusCode res"
    by (simp add: response res_json_def)
  moreover have "body (getWasteLists p req res) =
         JObj [(''success'', JBool True), (''message'', JStr ''Success''),
           (''data'', JObj [(''items'', JArr wasteData),
              (''pagination'',
                 JObj [(''total'', num (int totalWasteCount)),
                       (''page'', JNum (page ?pg)),
                       (''limit'', JNum (limit ?pg)),
                       (''totalPages'',
                          JNum (Math_ceil_div (Fin (int totalWasteCount)) (limit ?pg)))])])]"
    by (simp add: response res_json_def ApiResponse_success_plain)
  ultimately show ?thesis
    using bounds by blast
qed

text \<open>
  The scenario of 120 rows with \<open>page=2\<close> and \<open>limit=50\<close>: 50 items, total 120 and 3 pages.
  An empty table with no parameters: no items, total 0.
\<close>

lemma getWasteLists_120_rows:
  "getWasteLists (table_prisma (replicate 120 (JObj [])))
        (bare_request\<lparr>query_page := JStr ''2'', query_limit := JStr ''50''\<rparr>) new_response
     = \<lparr>statusCode = num 200,
        body = JObj [(''success'', JBool True), (''message'', JStr ''Success''),
                 (''data'', JObj [(''items'', JArr (replicate 50 (JObj []))),
                    (''pagination'',
                       JObj [(''total'', num 120), (''page'', num 2), (''limit'', num 50),
                             (''totalPages'', num 3)])])]\<rparr>"
proof -
  let ?p = "table_prisma (replicate 120 (JObj []))"
  let ?req = "bare_request\<lparr>query_page := JStr ''2'', query_limit := JStr ''50''\<rparr>"
  have search: "optional_trim ''req.query.search'' (query_search ?req) = Inr JUndefined"
    by (simp add: optional_trim_def bare_request_def)
  have rows: "waste_findMany ?p
                (waste_list_query (waste_list_where JUndefined)
                   (validatePagination (query_page ?req) (query_limit ?req)))
              = Inr (replicate 50 (JObj []))"
    by (simp add: bare_request_def validatePagination_2_50 table_prisma_def table_findMany_def
        waste_list_query_def get_prop_def waste_list_where_def)
  have cnt: "waste_count ?p (JObj [(''where'', waste_list_where JUndefined)]) = Inr 120"
    by (simp add: table_prisma_def)
  from getWasteLists_resolved [OF honours_take_table search rows cnt, of new_response]
  show ?thesis
    by (auto simp add: validatePagination_2_50 bare_request_def new_response_def
        Math_ceil_div_120_50 simp del: Math_ceil_div.simps)
qed

lemma getWasteLists_empty_table:
  "getWasteLists (table_prisma []) bare_request new_response
     = \<lparr>statusCode = num 200,
        body = JObj [(''success'', JBool True), (''message'', JStr ''Success''),
                 (''data'', JObj [(''items'', JArr []),
                    (''pagination'',
                       JObj [(''total'', num 0), (''page'', num 1), (''limit'', num 10),
                             (''totalPages'', num 0)])])]\<rparr>"
proof -
  have search: "optional_trim ''req.query.search'' (query_search bare_request) = Inr JUndefined"
    by (simp add: optional_trim_def bare_request_def)
  have rows0: "waste_findMany (table_prisma [])
                (waste_list_query (waste_list_where JUndefined)
                   (validatePagination (query_page bare_request) (query_limit bare_request)))
              = Inr []"
    by (simp add: bare_request_def validatePagination_defaults table_prisma_def
        table_findMany_def waste_list_query_def get_prop_def waste_list_where_def)
  have cnt0: "waste_count (table_prisma []) (JObj [(''where'', waste_list_where JUndefined)])
                = Inr 0"
    by (simp add: table_prisma_def)
  from getWasteLists_resolved [OF honours_take_table search rows0 cnt0, of new_response]
  show ?thesis
    by (auto simp add: validatePagination_defaults bare_request_def new_response_def)
qed

text \<open>
  Claim C6. Every paginated list is to hold at most \<open>limit\<close> items, with \<open>limit\<close> between 1
  and 100. On \<open>limit=abc\<close> the limit is \<open>NaN\<close> and goes to the query as its \<open>take\<close>; with
  a client over 200 rows that returns at most \<open>take\<close> rows for every integer \<open>take\<close>, the
  response is a success envelope with all 200 rows and the limit and the number of
  pages \<open>NaN\<close>.
\<close>

theorem getWasteLists_non_numeric_limit:
  "getWasteLists (unchecked_prisma (replicate 200 (JObj [])))
        (bare_request\<lparr>query_limit := JStr ''abc''\<rparr>) new_response
     = \<lparr>statusCode = num 200,
        body = JObj [(''success'', JBool True), (''message'', JStr ''Success''),
                 (''data'', JObj [(''items'', JArr (replicate 200 (JObj []))),
                    (''pagination'',
                       JObj [(''total'', num 200), (''page'', num 1), (''limit'', JNum NaN),
                             (''totalPages'', JNum NaN)])])]\<rparr>"
proof -
  let ?p = "unchecked_prisma (replicate 200 (JObj []))"
  let ?req = "bare_request\<lparr>query_limit := JStr ''abc''\<rparr>"
  have "getWasteLists_handler ?p ?req new_response
          = Inr (res_json
                   (ApiResponse_success
                      (JObj [(''items'', JArr (replicate 200 (JObj []))),
                             (''pagination'',
                                JObj [(''total'', num 200), (''page'', num 1),
                                      (''limit'', JNum NaN), (''totalPages'', JNum NaN)])])
                      JUndefined [])
                   new_response)"
    by (simp add: getWasteLists_handler_def Let_def bare_request_def optional_trim_def
        waste_list_where_def waste_list_query_def unchecked_prisma_def unchecked_findMany_def
        get_prop_def Promise_all_def validatePagination_limit_abc)
  then show ?thesis
    by (simp add: getWasteLists_def asyncHandler_def res_json_def ApiResponse_success_plain
        new_response_def)
qed

lemma trim_glass: "trim '' glass '' = ''glass''"
  by (simp add: trim_def is_ws_def)

text \<open>
  The name search when its \<open>name\<close> parameter is absent or a string. A missing name, or
  one that trims to the empty string, is answered with status 400 and the message
  \<open>Waste name is required.\<close>. For a name that trims to a non-empty string: if the query
  resolves to no rows the answer is status 404 with the message
  \<open>No waste found with the given name.\<close>; if it resolves to rows the answer is the
  success envelope holding them, and they are at most 50 when the client returns at most
  \<open>take\<close> rows.
\<close>

lemma findWasteName_cases:
  "(query_name req = JUndefined \<or> (\<exists>s. query_name req = JStr s \<and> trim s = []) \<longrightarrow>
      findWasteName p req res =
        \<lparr>statusCode = num 400,
         body = JObj [(''success'', JBool False), (''message'', JStr ''Waste name is required.''),
                      (''status'', num 400)]\<rparr>)
   \<and> (query_name req = JStr name \<and> trim name \<noteq> []
        \<and> waste_findMany p (waste_name_query (JStr (trim name))) = Inr [] \<longrightarrow>
      findWasteName p req res =
        \<lparr>statusCode = num 404,
         body = JObj [(''success'', JBool False),
                      (''message'', JStr ''No waste found with the given name.''),
                      (''status'', num 404)]\<rparr>)
   \<and> (honours_take p \<and> query_name req = JStr name \<and> trim name \<noteq> []
        \<and> waste_findMany p (waste_name_query (JStr (trim name))) = Inr waste \<and> waste \<noteq> [] \<longrightarrow>
      length waste \<le> 50
      \<and> statusCode (findWasteName p req res) = statusCode res
      \<and> body (findWasteName p req res) =
           JObj [(''success'', JBool True), (''message'', JStr ''Success''),
                 (''data'', JArr waste)])"
proof -
  have missing: "findWasteName p req res =
        \<lparr>statusCode = num 400,
         body = JObj [(''success'', JBool False), (''message'', JStr ''Waste name is required.''),
                      (''status'', num 400)]\<rparr>"
    if "query_name req = JUndefined \<or> (\<exists>s. query_name req = JStr s \<and> trim s = [])"
    using that
    by (auto simp add: findWasteName_def findWasteName_handler_def optional_trim_def
        asyncHandler_def ApiResponse_error_plain res_json_def res_status_def)
  have none: "findWasteName p req res =
        \<lparr>statusCode = num 404,
         body = JObj [(''success'', JBool False),
                      (''message'', JStr ''No waste found with the given name.''),
                      (''status'', num 404)]\<rparr>"
    if "query_name req = JStr name" "trim name \<noteq> []"
       "waste_findMany p (waste_name_query (JStr (trim name))) = Inr []"
    using that
    by (simp add: findWasteName_def findWasteName_handler_def optional_trim_def
        asyncHandler_def ApiResponse_error_plain res_json_def res_status_def)
  have some: "length waste \<le> 50
      \<and> statusCode (findWasteName p req res) = statusCode res
      \<and> body (findWasteName p req res) =
           JObj [(''success'', JBool True), (''message'', JStr ''Success''),
                 (''data'', JArr waste)]"
    if h: "honours_take p" and q: "query_name req = JStr name" "trim name \<noteq> []"
       and r: "waste_findMany p (waste_name_query (JStr (trim name))) = Inr waste"
       and ne: "waste \<noteq> []"
  proof -
    from honours_takeD [OF h r take_of_waste_name_query]
    have "length waste \<le> 50" by simp
    moreover have "findWasteName p req res
        = res_json (ApiResponse_success (JArr waste) JUndefined []) res"
      using q r ne
      by (simp add: findWasteName_def findWasteName_handler_def optional_trim_def
          asyncHandler_def)
    ultimately show ?thesis
      by (simp add: res_json_def ApiResponse_success_plain)
  qed
  show ?thesis
    using missing none some by blast
qed

lemma findWasteName_examples:
  "findWasteName (table_prisma []) bare_request new_response
     = \<lparr>statusCode = num 400,
        body = JObj [(''success'', JBool False), (''message'', JStr ''Waste name is required.''),
                     (''status'', num 400)]\<rparr>
   \<and> findWasteName (table_prisma []) (bare_request\<lparr>query_name := JStr '' glass ''\<rparr>) new_response
     = \<lparr>statusCode = num 404,
        body = JObj [(''success'', JBool False),
                     (''message'', JStr ''No waste found with the given name.''),
                     (''status'', num 404)]\<rparr>
   \<and> honours_take (table_prisma (replicate 60 (JObj [])))
   \<and> findWasteName (table_prisma (replicate 60 (JObj [])))
        (bare_request\<lparr>query_name := JStr '' glass ''\<rparr>) new_response
     = \<lparr>statusCode = num 200,
        body = JObj [(''success'', JBool True), (''message'', JStr ''Success''),
                     (''data'', JArr (replicate 50 (JObj [])))]\<rparr>"
proof -
  let ?req = "bare_request\<lparr>query_name := JStr '' glass ''\<rparr>"
  have absent: "query_name bare_request = JUndefined"
    by (simp add: bare_request_def)
  have given: "query_name ?req = JStr '' glass ''" "trim '' glass '' \<noteq> []"
    by (simp_all add: trim_glass)
  have rows0: "waste_findMany (table_prisma []) (waste_name_query (JStr (trim '' glass '')))
                 = Inr []"
    by (simp add: table_prisma_def table_findMany_def waste_name_query_def get_prop_def)
  have rows: "waste_findMany (table_prisma (replicate 60 (JObj [])))
                (waste_name_query (JStr (trim '' glass ''))) = Inr (replicate 50 (JObj []))"
    by (simp add: table_prisma_def table_findMany_def waste_name_query_def get_prop_def)
  have ne: "replicate 50 (JObj []) \<noteq> []"
    by simp
  have a: "findWasteName (table_prisma []) bare_request new_response
     = \<lparr>statusCode = num 400,
        body = JObj [(''success'', JBool False), (''message'', JStr ''Waste name is required.''),
                     (''status'', num 400)]\<rparr>"
    using findWasteName_cases [where req = bare_request and p = "table_prisma []"
        and res = new_response] absent
    by simp
  have b: "findWasteName (table_prisma []) ?req new_response
     = \<lparr>statusCode = num 404,
        body = JObj [(''success'', JBool False),
                     (''message'', JStr ''No waste found with the given name.''),
                     (''status'', num 404)]\<rparr>"
    using findWasteName_cases [where req = ?req and p = "table_prisma []"
        and res = new_response and name = "'' glass ''"] given rows0
    by simp
  have c: "findWasteName (table_prisma (replicate 60 (JObj []))) ?req new_response
     = \<lparr>statusCode = num 200,
        body = JObj [(''success'', JBool True), (''message'', JStr ''Success''),
                     (''data'', JArr (replicate 50 (JObj [])))]\<rparr>"
    using findWasteName_cases [where req = ?req and p = "table_prisma (replicate 60 (JObj []))"
        and res = new_response and name = "'' glass ''" and waste = "replicate 50 (JObj [])"]
      given rows ne honours_take_table [of "replicate 60 (JObj [])"]
    by (auto simp add: new_response_def)
  show ?thesis
    using a b c honours_take_table by simp
qed

text \<open>
  Claim C7. Every name search is to be answered with 400 for a missing name, 404 for no
  rows, and the success envelope otherwise. A repeated parameter, \<open>?name=a&name=b\<close>,
  reaches the handler as the array \<open>["a", "b"]\<close>, which has no \<open>trim\<close>: the handler throws
  a \<open>TypeError\<close> before any query, and the wrapper answers with status 500.
\<close>

theorem findWasteName_array_name:
  "findWasteName p (bare_request\<lparr>query_name := JArr [JStr ''a'', JStr ''b'']\<rparr>) res
     = \<lparr>statusCode = num 500,
        body = JObj [(''success'', JBool False),
                     (''message'', JStr ''req.query.name?.trim is not a function''),
                     (''status'', num 500), (''path'', JStr ''/api/waste'')]\<rparr>"
proof -
  have "findWasteName_handler p (bare_request\<lparr>query_name := JArr [JStr ''a'', JStr ''b'']\<rparr>) res
          = Inl (new_Error ''req.query.name?.trim is not a function'')"
    by (simp add: findWasteName_handler_def optional_trim_def)
  then show ?thesis
    by (simp add: findWasteName_def asyncHandler_renders new_Error_def js_or_def
        bare_request_def)
qed

section \<open>Properties of the cache\<close>

lemma cache_get_empty: "cache_get createCache key now = JNull"
  by (simp add: cache_get_def createCache_def)

text \<open>
  Claim C3. The middleware looks its key up in the store it has just created, which is
  empty, so the lookup gives \<open>null\<close> and the cached value is never written as the response:
  every invocation ends in \<open>next()\<close>, with the setter bound to the empty store, or in
  \<open>next(error)\<close>.
\<close>

theorem withCache_never_hits:
  "cache_get createCache key now = JNull
   \<and> (\<forall>v. withCache getCacheKey ttl req now \<noteq> Responded v)
   \<and> ((\<exists>h. withCache getCacheKey ttl req now = Next h \<and> bound_store h = Map.empty)
        \<or> (\<exists>e. withCache getCacheKey ttl req now = NextError e))"
  by (cases "cacheKey_of getCacheKey req")
     (simp_all add: withCache_def withCache_try_def Let_def cache_get_empty,
      simp_all add: createCache_def)

theorem withCache_never_hits_witness:
  "withCache (KeyLiteral (KStr ''waste:list'')) None bare_request 0
     = Next \<lparr>bound_store = Map.empty, bound_key = KStr ''waste:list'', bound_ttl = 3600\<rparr>"
  using withCache_never_hits
    [of "KStr ''waste:list''" 0 "KeyLiteral (KStr ''waste:list'')" None bare_request]
  by (auto simp add: withCache_def withCache_try_def cacheKey_of_def Let_def createCache_def)

text \<open>
  Claim C10. On any store, an entry whose value is falsy is a miss for the middleware,
  expired or not: it calls \<open>next()\<close> with the setter attached. The values \<open>null\<close>, \<open>0\<close>, the
  empty string and \<open>false\<close> are falsy.
\<close>

theorem withCache_falsy_is_miss:
  assumes "cacheKey_of getCacheKey req = Inr key"
    and "cache key = Some item"
    and "\<not> truthy (item_value item)"
  shows "withCache_try cache getCacheKey ttl req now
           = Next \<lparr>bound_store = cache, bound_key = key, bound_ttl = ttl\<rparr>
         \<and> \<not> truthy JNull \<and> \<not> truthy (num 0) \<and> \<not> truthy (JStr '''')
         \<and> \<not> truthy (JBool False)"
  using assms by (simp add: withCache_try_def cache_get_def Let_def)

theorem withCache_falsy_is_miss_witness:
  "cacheKey_of (KeyLiteral (KStr ''K'')) bare_request = Inr (KStr ''K'')
   \<and> cache_set createCache (KStr ''K'') (num 0) (Some 60) 1000 (KStr ''K'')
       = Some \<lparr>item_value = num 0, expires = Fin 61000\<rparr>
   \<and> js_gt (expires \<lparr>item_value = num 0, expires = Fin 61000\<rparr>) (Fin 2000)
   \<and> \<not> truthy (item_value \<lparr>item_value = num 0, expires = Fin 61000\<rparr>)
   \<and> withCache_try (cache_set createCache (KStr ''K'') (num 0) (Some 60) 1000)
         (KeyLiteral (KStr ''K'')) 60 bare_request 2000
       = Next \<lparr>bound_store = cache_set createCache (KStr ''K'') (num 0) (Some 60) 1000,
               bound_key = KStr ''K'', bound_ttl = 60\<rparr>"
proof -
  have k: "cacheKey_of (KeyLiteral (KStr ''K'')) bare_request = Inr (KStr ''K'')"
    by (simp add: cacheKey_of_def)
  have s: "cache_set createCache (KStr ''K'') (num 0) (Some 60) 1000 (KStr ''K'')
       = Some \<lparr>item_value = num 0, expires = Fin 61000\<rparr>"
    by (simp add: cache_set_def to_double_small)
  have f: "\<not> truthy (item_value \<lparr>item_value = num 0, expires = Fin 61000\<rparr>)"
    by simp
  show ?thesis
    using withCache_falsy_is_miss
      [where getCacheKey = "KeyLiteral (KStr ''K'')" and req = bare_request and key = "KStr ''K''"
         and cache = "cache_set createCache (KStr ''K'') (num 0) (Some 60) 1000"
         and item = "\<lparr>item_value = num 0, expires = Fin 61000\<rparr>" and ttl = 60
         and now = 2000]
      k s f by (simp add: js_gt_def)
qed

text \<open>
  The store: after \<open>set(key, value, ttl)\<close> the entry of the key holds the value and
  expires at \<open>now + ttl * 1000\<close>, whatever was there before, and the other keys are
  untouched; \<open>get(key)\<close> gives the stored value while the clock is before the expiry, and
  \<open>null\<close> from the expiry on or when there is no entry.
\<close>

lemma cache_set_get:
  "cache_set cache key v ttl now key
       = Some \<lparr>item_value = v,
               expires = js_add (Fin now)
                           (js_mul (Fin (case ttl of None \<Rightarrow> 3600 | Some t \<Rightarrow> t)) (Fin 1000))\<rparr>
   \<and> (\<forall>k. k \<noteq> key \<longrightarrow> cache_set cache key v ttl now k = cache k)
   \<and> (cache key = Some item \<and> js_lt (Fin now) (expires item) \<longrightarrow>
        cache_get cache key now = item_value item)
   \<and> (cache key = Some item \<and> \<not> js_lt (Fin now) (expires item) \<longrightarrow>
        cache_get cache key now = JNull)
   \<and> (cache key = None \<longrightarrow> cache_get cache key now = JNull)"
  by (simp add: cache_set_def cache_get_def js_gt_def Let_def)

text \<open>
  Claim C9. A request whose key was stored before, and has not expired, is to be
  answered from the cache without reaching the handler. Take two requests with the key
  \<open>K\<close> and a time to live of 60 seconds. The first, at time 1000, misses, and the handler
  stores \<open>"v"\<close> through the setter it was given: the entry expires at 61000. The second,
  at time 2000, creates its own store, misses too, and reaches the handler.
\<close>

theorem withCache_second_request_misses:
  "withCache (KeyLiteral (KStr ''K'')) (Some 60) bare_request 1000
     = Next \<lparr>bound_store = Map.empty, bound_key = KStr ''K'', bound_ttl = 60\<rparr>
   \<and> locals_cache_set \<lparr>bound_store = Map.empty, bound_key = KStr ''K'', bound_ttl = 60\<rparr>
        (JStr ''v'') 1000 (KStr ''K'')
     = Some \<lparr>item_value = JStr ''v'', expires = Fin 61000\<rparr>
   \<and> cache_get
        (locals_cache_set \<lparr>bound_store = Map.empty, bound_key = KStr ''K'', bound_ttl = 60\<rparr>
           (JStr ''v'') 1000)
        (KStr ''K'') 2000
     = JStr ''v''
   \<and> withCache (KeyLiteral (KStr ''K'')) (Some 60) bare_request 2000
     = Next \<lparr>bound_store = Map.empty, bound_key = KStr ''K'', bound_ttl = 60\<rparr>"
  by (simp add: withCache_def withCache_try_def cacheKey_of_def createCache_def cache_get_def
      locals_cache_set_def cache_set_def js_gt_def to_double_small Let_def)

end
